theory Spec2Isabelle
  imports Complex_Main
begin

section \<open>Numbers and faults\<close>

text \<open>
  The simulation computes with Python floats (and small Python ints for the masses and
  radii the spawners pass). They are modelled as mathematical reals: rounding, overflow,
  signed zeros and NaN are outside the model. What the model keeps is every place where
  the interpreter raises: a true division by zero raises \<open>ZeroDivisionError\<close> and
  \<open>math.sqrt\<close> of a negative number raises \<open>ValueError\<close>. Nothing in the program
  catches either, so a fault ends the run; a faulting operation returns \<open>Inl\<close>.
\<close>

datatype py_error = ZeroDivisionError | ValueError

definition bind_res :: "py_error + 'a \<Rightarrow> ('a \<Rightarrow> py_error + 'b) \<Rightarrow> py_error + 'b" where
  "bind_res r f = (case r of Inl e \<Rightarrow> Inl e | Inr v \<Rightarrow> f v)"

definition truediv :: "real \<Rightarrow> real \<Rightarrow> py_error + real" where
  "truediv a b = (if b = 0 then Inl ZeroDivisionError else Inr (a / b))"

definition py_sqrt :: "real \<Rightarrow> py_error + real" where
  "py_sqrt v = (if v < 0 then Inl ValueError else Inr (sqrt v))"

definition hypot :: "real \<Rightarrow> real \<Rightarrow> real" where
  "hypot dx dy = sqrt (dx * dx + dy * dy)"

definition atan2 :: "real \<Rightarrow> real \<Rightarrow> real" where
  "atan2 dy dx =
     (if 0 < dx then arctan (dy / dx)
      else if dx < 0 \<and> 0 \<le> dy then arctan (dy / dx) + pi
      else if dx < 0 then arctan (dy / dx) - pi
      else if 0 < dy then pi / 2
      else if dy < 0 then - (pi / 2)
      else 0)"

definition G :: real where
  "G = 66743 / 100000"

definition WIDTH :: real where
  "WIDTH = 1200"

definition HEIGHT :: real where
  "HEIGHT = 800"

section \<open>Bodies and the world\<close>

text \<open>
  \<open>class Body\<close>. The fields are those \<open>__init__\<close> assigns, under their own names.
\<close>

record Body =
  x :: real
  y :: real
  radius :: real
  color :: "nat \<times> nat \<times> nat"
  mass :: real
  vx :: real
  vy :: real
  is_static :: bool
  trail :: "(real \<times> real) list"

text \<open>
  \<open>Body.__init__\<close>: nine assignments and no check of any argument.
\<close>

definition Body_init ::
  "real \<Rightarrow> real \<Rightarrow> real \<Rightarrow> nat \<times> nat \<times> nat \<Rightarrow> real \<Rightarrow> real \<Rightarrow> real \<Rightarrow> bool \<Rightarrow> Body" where
  "Body_init px py r c m pvx pvy st =
     \<lparr>x = px, y = py, radius = r, color = c, mass = m, vx = pvx, vy = pvy,
      is_static = st, trail = []\<rparr>"

text \<open>
  Bodies are Python objects: \<open>other is self\<close>, \<open>self in bodies\<close> and
  \<open>bodies.remove(self)\<close> all compare identities (the class defines no \<open>__eq__\<close>), and
  an object removed from the list \<open>bodies\<close> is still alive wherever a reference to it
  is held. So an object is a number, the store \<open>heap\<close> gives every object its fields,
  and the global list \<open>bodies\<close> is a list of objects. The other module globals that the
  modelled functions read are fields of the same record; \<open>fresh\<close> is the next unused
  object.
\<close>

record world =
  heap :: "nat \<Rightarrow> Body"
  bodies :: "nat list"
  paused :: bool
  zoom :: real
  offset_x :: real
  offset_y :: real
  fresh :: nat

definition set_mass :: "(nat \<Rightarrow> Body) \<Rightarrow> nat \<Rightarrow> real \<Rightarrow> (nat \<Rightarrow> Body)" where
  "set_mass h b v = h(b := (h b)\<lparr>mass := v\<rparr>)"

definition set_vx :: "(nat \<Rightarrow> Body) \<Rightarrow> nat \<Rightarrow> real \<Rightarrow> (nat \<Rightarrow> Body)" where
  "set_vx h b v = h(b := (h b)\<lparr>vx := v\<rparr>)"

definition set_vy :: "(nat \<Rightarrow> Body) \<Rightarrow> nat \<Rightarrow> real \<Rightarrow> (nat \<Rightarrow> Body)" where
  "set_vy h b v = h(b := (h b)\<lparr>vy := v\<rparr>)"

definition set_x :: "(nat \<Rightarrow> Body) \<Rightarrow> nat \<Rightarrow> real \<Rightarrow> (nat \<Rightarrow> Body)" where
  "set_x h b v = h(b := (h b)\<lparr>x := v\<rparr>)"

definition set_y :: "(nat \<Rightarrow> Body) \<Rightarrow> nat \<Rightarrow> real \<Rightarrow> (nat \<Rightarrow> Body)" where
  "set_y h b v = h(b := (h b)\<lparr>y := v\<rparr>)"

definition set_radius :: "(nat \<Rightarrow> Body) \<Rightarrow> nat \<Rightarrow> real \<Rightarrow> (nat \<Rightarrow> Body)" where
  "set_radius h b v = h(b := (h b)\<lparr>radius := v\<rparr>)"

definition set_trail :: "(nat \<Rightarrow> Body) \<Rightarrow> nat \<Rightarrow> (real \<times> real) list \<Rightarrow> (nat \<Rightarrow> Body)" where
  "set_trail h b v = h(b := (h b)\<lparr>trail := v\<rparr>)"

section \<open>Body.merge\<close>

text \<open>
  \<open>Body.merge(self, other)\<close>, statement by statement. Each assignment reads the store
  as the assignments before it left it: the mass of the absorbing body is increased
  first, and the two velocity assignments that follow read that increased mass.
\<close>

definition merge :: "world \<Rightarrow> nat \<Rightarrow> nat \<Rightarrow> py_error + world" where
  "merge s self other =
     (if is_static (heap s other) then Inr s
      else if mass (heap s self) < mass (heap s other) then
        (let h1 = set_mass (heap s) other (mass (heap s other) + mass (heap s self)) in
         bind_res (truediv (vx (h1 other) * mass (h1 other) + vx (h1 self) * mass (h1 self))
                     (mass (h1 self) + mass (h1 other))) (\<lambda>nvx.
         let h2 = set_vx h1 other nvx in
         bind_res (truediv (vy (h2 other) * mass (h2 other) + vy (h2 self) * mass (h2 self))
                     (mass (h2 self) + mass (h2 other))) (\<lambda>nvy.
         let h3 = set_vy h2 other nvy in
         bind_res (py_sqrt ((radius (h3 other))\<^sup>2 + (radius (h3 self))\<^sup>2)) (\<lambda>nr.
         let h4 = set_radius h3 other nr in
         Inr (s\<lparr>heap := h4,
                bodies := (if self \<in> set (bodies s) then remove1 self (bodies s)
                           else bodies s)\<rparr>)))))
      else
        (let h1 = set_mass (heap s) self (mass (heap s self) + mass (heap s other)) in
         bind_res (truediv (vx (h1 self) * mass (h1 self) + vx (h1 other) * mass (h1 other))
                     (mass (h1 self) + mass (h1 other))) (\<lambda>nvx.
         let h2 = set_vx h1 self nvx in
         bind_res (truediv (vy (h2 self) * mass (h2 self) + vy (h2 other) * mass (h2 other))
                     (mass (h2 self) + mass (h2 other))) (\<lambda>nvy.
         let h3 = set_vy h2 self nvy in
         bind_res (py_sqrt ((radius (h3 self))\<^sup>2 + (radius (h3 other))\<^sup>2)) (\<lambda>nr.
         let h4 = set_radius h3 self nr in
         Inr (s\<lparr>heap := h4,
                bodies := (if other \<in> set (bodies s) then remove1 other (bodies s)
                           else bodies s)\<rparr>))))))"

section \<open>Body.update\<close>

text \<open>
  One pass of the body of \<open>for other in bodies\<close> in \<open>Body.update\<close>, for the element
  \<open>other\<close>, with the running sums \<open>fx\<close>, \<open>fy\<close>.
\<close>

definition scan_step ::
  "world \<Rightarrow> nat \<Rightarrow> nat \<Rightarrow> real \<Rightarrow> real \<Rightarrow> py_error + (world \<times> real \<times> real)" where
  "scan_step s self other fx fy =
     (if other = self then Inr (s, fx, fy)
      else
        (let dx = x (heap s other) - x (heap s self);
             dy = y (heap s other) - y (heap s self);
             distance = hypot dx dy
         in if distance = 0 then Inr (s, fx, fy)
            else if distance < radius (heap s self) + radius (heap s other) then
              bind_res (merge s self other) (\<lambda>s'. Inr (s', fx, fy))
            else
              bind_res (truediv (G * mass (heap s self) * mass (heap s other)) (distance\<^sup>2))
                (\<lambda>force.
                   let angle = atan2 dy dx
                   in Inr (s, fx + cos angle * force, fy + sin angle * force))))"

text \<open>
  The loop \<open>for other in bodies\<close> runs over the live global list, which \<open>merge\<close>
  shortens while the loop is running. Python's list iterator keeps a position \<open>i\<close>; each
  round it stops if \<open>i\<close> has reached the current length of the list, and otherwise takes
  the element now at position \<open>i\<close> and advances. \<open>scan\<close> is that loop from position
  \<open>i\<close> on.
\<close>

function scan ::
  "world \<Rightarrow> nat \<Rightarrow> nat \<Rightarrow> real \<Rightarrow> real \<Rightarrow> py_error + (world \<times> real \<times> real)" where
  "scan s self i fx fy =
     (if i < length (bodies s) then
        (case scan_step s self (bodies s ! i) fx fy of
           Inl e \<Rightarrow> Inl e
         | Inr (s', fx', fy') \<Rightarrow> scan s' self (Suc i) fx' fy')
      else Inr (s, fx, fy))"
  by pat_completeness auto
termination
proof (relation "measure (\<lambda>(s, self, i, fx, fy). length (bodies s) - i)")
  show "wf (measure (\<lambda>(s, self, i, fx, fy). length (bodies s) - i))"
    by simp
next
  fix s :: world and self i :: nat and fx fy :: real and r p s' q fx' fy'
  assume live: "i < length (bodies s)"
    and step: "scan_step s self (bodies s ! i) fx fy = Inr r"
    and r: "(s', q) = r" and q: "(fx', fy') = q"
  have shrink: "length (bodies m') \<le> length (bodies s)"
    if "merge s self (bodies s ! i) = Inr m'" for m'
    using that
    by (auto simp: merge_def Let_def bind_res_def length_remove1
        split: if_splits sum.splits)
  have "length (bodies s') \<le> length (bodies s)"
    using step r q shrink
    by (auto simp: scan_step_def Let_def bind_res_def split: if_splits sum.splits)
  with live
  show "((s', self, Suc i, fx', fy'), (s, self, i, fx, fy))
          \<in> measure (\<lambda>(s, self, i, fx, fy). length (bodies s) - i)"
    by simp
qed

text \<open>
  \<open>Body.update(self)\<close>: the guard, the scan of the live list from its start, then the
  four assignments to the velocity and the position of \<open>self\<close> and the bounded trail.
  Nothing between the scan and the assignments looks at whether \<open>self\<close> is still a
  member of \<open>bodies\<close>.
\<close>

definition update :: "world \<Rightarrow> nat \<Rightarrow> py_error + world" where
  "update s self =
     (if is_static (heap s self) \<or> paused s then Inr s
      else
        bind_res (scan s self 0 0 0) (\<lambda>(s1, fx, fy).
        bind_res (truediv fx (mass (heap s1 self))) (\<lambda>ax.
        let h1 = set_vx (heap s1) self (vx (heap s1 self) + ax) in
        bind_res (truediv fy (mass (h1 self))) (\<lambda>ay.
        let h2 = set_vy h1 self (vy (h1 self) + ay);
            h3 = set_x h2 self (x (h2 self) + vx (h2 self));
            h4 = set_y h3 self (y (h3 self) + vy (h3 self));
            h5 = set_trail h4 self (trail (h4 self) @ [(x (h4 self), y (h4 self))]);
            h6 = (if 150 < length (trail (h5 self))
                  then set_trail h5 self (tl (trail (h5 self))) else h5)
        in Inr (s1\<lparr>heap := h6\<rparr>)))))"

section \<open>The main loop\<close>

text \<open>
  \<open>for body in bodies[:]: body.update(); body.draw()\<close>. The slice is a copy taken
  once, before the first \<open>update\<close>, so the loop visits every object that was in the
  list at that moment, in order, whatever the updates remove in the meantime.
  \<open>draw\<close> only paints and changes nothing the model holds.
\<close>

fun tick_loop :: "world \<Rightarrow> nat list \<Rightarrow> py_error + world" where
  "tick_loop s [] = Inr s"
| "tick_loop s (b # bs) =
     (case update s b of Inl e \<Rightarrow> Inl e | Inr s' \<Rightarrow> tick_loop s' bs)"

definition tick :: "world \<Rightarrow> py_error + world" where
  "tick s = tick_loop s (bodies s)"

fun ticks :: "nat \<Rightarrow> world \<Rightarrow> py_error + world" where
  "ticks 0 s = Inr s"
| "ticks (Suc n) s = (case tick s of Inl e \<Rightarrow> Inl e | Inr s' \<Rightarrow> ticks n s')"

definition total_mass :: "world \<Rightarrow> real" where
  "total_mass s = sum_list (map (\<lambda>b. mass (heap s b)) (bodies s))"

section \<open>The spawners\<close>

text \<open>
  The module creates the sun first, \<open>sun = Body(0, 0, 20, (255, 204, 0), mass=10000,
  is_static=True)\<close>, and appends it; it is object \<open>0\<close>. The store is total, so the
  objects not created yet need some fields: they carry the sun's, and nothing reads
  them, since only created objects are ever in \<open>bodies\<close> and \<open>spawn\<close> overwrites the
  fields of the object it creates.
\<close>

definition sun :: nat where
  "sun = 0"

definition initial_world :: world where
  "initial_world =
     \<lparr>heap = (\<lambda>_. Body_init 0 0 20 (255, 204, 0) 10000 0 0 True),
      bodies = [sun], paused = False, zoom = 1, offset_x = 0, offset_y = 0, fresh = 1\<rparr>"

definition spawn :: "world \<Rightarrow> Body \<Rightarrow> world" where
  "spawn s b = s\<lparr>heap := (heap s)(fresh s := b), bodies := bodies s @ [fresh s],
                 fresh := Suc (fresh s)\<rparr>"

text \<open>
  \<open>add_planet(pos=None)\<close>. The two random draws are arguments: \<open>angle\<close> is the value
  of \<open>random.uniform(0, 2 * math.pi)\<close> and \<open>rdist\<close> that of
  \<open>random.randint(100, 400)\<close> (the source's \<open>dist\<close>). \<open>pos\<close> is the mouse position in pixels when the
  planet is added by a click. A tuple of two numbers is true in Python, so \<open>if pos\<close>
  tests only whether a position was given.
\<close>

definition add_planet :: "world \<Rightarrow> real \<Rightarrow> int \<Rightarrow> (int \<times> int) option \<Rightarrow> py_error + world" where
  "add_planet s angle rdist pos =
     bind_res
       (case pos of
          None \<Rightarrow> Inr (cos angle * real_of_int rdist, sin angle * real_of_int rdist)
        | Some (mx, my) \<Rightarrow>
            bind_res (truediv (real_of_int mx - WIDTH / 2) (zoom s)) (\<lambda>qx.
            bind_res (truediv (real_of_int my - HEIGHT / 2) (zoom s)) (\<lambda>qy.
            Inr (qx - offset_x s, qy - offset_y s))))
       (\<lambda>(px, py).
          let distance = hypot px py in
          bind_res (truediv (G * mass (heap s sun)) distance) (\<lambda>q.
          bind_res (py_sqrt q) (\<lambda>speed.
          Inr (spawn s (Body_init px py 6 (0, 150, 255) 5
                          (- sin angle * speed) (cos angle * speed) False)))))"

text \<open>
  \<open>add_asteroid()\<close>, with its four random draws as arguments.
\<close>

definition add_asteroid :: "world \<Rightarrow> int \<Rightarrow> int \<Rightarrow> real \<Rightarrow> real \<Rightarrow> world" where
  "add_asteroid s px py pvx pvy =
     spawn s (Body_init (real_of_int px) (real_of_int py) 3 (150, 150, 150) 1 pvx pvy False)"

section \<open>Measures and example worlds\<close>

text \<open>
  The two roles in a merge that is carried out, read off the comparison
  \<open>self.mass < other.mass\<close>: the body that absorbs and the body that is absorbed.
\<close>

definition winner :: "world \<Rightarrow> nat \<Rightarrow> nat \<Rightarrow> nat" where
  "winner s self other = (if mass (heap s self) < mass (heap s other) then other else self)"

definition loser :: "world \<Rightarrow> nat \<Rightarrow> nat \<Rightarrow> nat" where
  "loser s self other = (if mass (heap s self) < mass (heap s other) then self else other)"

text \<open>
  What a run leaves alone: the pause flag, which bodies are static, and every static
  body itself, together with its membership in \<open>bodies\<close>.
\<close>

definition static_kept :: "world \<Rightarrow> world \<Rightarrow> bool" where
  "static_kept s s' \<longleftrightarrow>
     paused s' = paused s \<and>
     (\<forall>b. is_static (heap s' b) = is_static (heap s b)) \<and>
     (\<forall>b. is_static (heap s b) \<longrightarrow>
        heap s' b = heap s b \<and> (b \<in> set (bodies s) \<longrightarrow> b \<in> set (bodies s')))"

text \<open>
  Worlds the program reaches from its start by spawning. \<open>pair_world\<close>: two asteroids
  at rest, four units apart on the x axis, far from the sun. \<open>pair_merged\<close>: the same
  after the first has absorbed the second. \<open>duel_world\<close>: a body of mass 3 and velocity
  (2, 0) overlapping a body of mass 1 and velocity (0, 4). \<open>twin_world\<close>: two asteroids
  with the same centre.
\<close>

definition pair_world :: world where
  "pair_world = add_asteroid (add_asteroid initial_world 500 0 0 0) 504 0 0 0"

definition pair_merged :: world where
  "pair_merged =
     pair_world\<lparr>heap := (heap pair_world)
         (1 := (heap pair_world 1)\<lparr>mass := 2, vx := 0, vy := 0, radius := sqrt 18\<rparr>),
       bodies := [0, 1]\<rparr>"

definition duel_world :: world where
  "duel_world =
     spawn (spawn initial_world (Body_init 100 0 3 (150, 150, 150) 3 2 0 False))
       (Body_init 104 0 3 (150, 150, 150) 1 0 4 False)"

definition twin_world :: world where
  "twin_world = add_asteroid (add_asteroid initial_world 50 70 1 0) 50 70 0 1"

text \<open>
  \<open>grazing_world\<close>: one asteroid inside the disc of the sun, moving at (1, -1);
  \<open>grazing_after\<close> is that world one tick later. \<open>click_world\<close>: the start world
  after a click at pixel (600, 0), straight above the sun, with the random angle drawn
  as 0; \<open>pair_click_world\<close> is \<open>pair_world\<close> after the same click.
  \<open>swallow_world\<close>: an asteroid at 500 on the x axis, a planet added by a click
  at pixel (1105, 400) (again with angle 0), which overlaps it, and two more asteroids
  at -300 and 900.
\<close>

definition grazing_world :: world where
  "grazing_world = add_asteroid initial_world 10 0 1 (- 1)"

definition grazing_after :: world where
  "grazing_after =
     grazing_world\<lparr>heap := (heap grazing_world)
       (1 := (Body_init 11 (- 1) 3 (150, 150, 150) 1 1 (- 1) False)\<lparr>trail := [(11, - 1)]\<rparr>)\<rparr>"

definition click_world :: world where
  "click_world =
     spawn initial_world
       (Body_init 0 (- 400) 6 (0, 150, 255) 5 0 (sqrt (G * 10000 / 400)) False)"

definition pair_click_world :: world where
  "pair_click_world =
     spawn pair_world
       (Body_init 0 (- 400) 6 (0, 150, 255) 5 0 (sqrt (G * 10000 / 400)) False)"

definition planet_505 :: Body where
  "planet_505 = Body_init 505 0 6 (0, 150, 255) 5 0 (sqrt (G * 10000 / 505)) False"

definition swallow_world :: world where
  "swallow_world =
     add_asteroid (add_asteroid (spawn (add_asteroid initial_world 500 0 0 0) planet_505)
       (- 300) 0 0 0) 900 0 0 0"

text \<open>
  Every object in the store, listed in \<open>bodies\<close> or not, has positive mass and radius.
\<close>

definition positive_world :: "world \<Rightarrow> bool" where
  "positive_world s \<longleftrightarrow> (\<forall>b. 0 < mass (heap s b) \<and> 0 < radius (heap s b))"

text \<open>
  The scalar product of a body's velocity with its position relative to the sun: zero
  exactly when the velocity is perpendicular to the radius vector.
\<close>

definition radial_dot :: "world \<Rightarrow> nat \<Rightarrow> real" where
  "radial_dot s p =
     (x (heap s p) - x (heap s sun)) * vx (heap s p)
     + (y (heap s p) - y (heap s sun)) * vy (heap s p)"

section \<open>Basic facts\<close>

lemma bind_res_simps [simp]:
  "bind_res (Inl e) f = Inl e"
  "bind_res (Inr v) f = f v"
  by (simp_all add: bind_res_def)

lemma bind_res_Inr_iff:
  "bind_res r f = Inr w \<longleftrightarrow> (\<exists>v. r = Inr v \<and> f v = Inr w)"
  by (cases r) simp_all

lemmas setters =
  set_mass_def set_vx_def set_vy_def set_x_def set_y_def set_radius_def set_trail_def

lemma hypot_axis: "hypot dx 0 = \<bar>dx\<bar>"
  by (simp add: hypot_def)

lemma hypot_nonneg: "0 \<le> hypot dx dy"
  by (simp add: hypot_def)

lemma atan2_axis_neg: "dx < 0 \<Longrightarrow> atan2 0 dx = pi"
  by (simp add: atan2_def)

lemma atan2_axis_pos: "0 < dx \<Longrightarrow> atan2 0 dx = 0"
  by (simp add: atan2_def)

lemma le_sqrt_double: "(r::real) \<le> sqrt (2 * r\<^sup>2)"
  using real_sqrt_sum_squares_ge1 [of r r] by simp

lemma scan_unfold:
  "i < length (bodies s) \<Longrightarrow> scan s self i fx fy =
     (case scan_step s self (bodies s ! i) fx fy of
        Inl e \<Rightarrow> Inl e
      | Inr (s', fx', fy') \<Rightarrow> scan s' self (Suc i) fx' fy')"
  "\<not> i < length (bodies s) \<Longrightarrow> scan s self i fx fy = Inr (s, fx, fy)"
  by simp_all

declare scan.simps [simp del]

text \<open>The rewrite rules that run the model on a concrete world.\<close>

lemmas run_defs =
  update_def scan_unfold scan_step_def Let_def merge_def setters truediv_def py_sqrt_def
  hypot_axis atan2_axis_neg atan2_axis_pos G_def

lemmas world_defs = initial_world_def add_asteroid_def spawn_def Body_init_def sun_def

lemma merge_pair: "merge pair_world 1 2 = Inr pair_merged"
  by (simp add: pair_world_def pair_merged_def world_defs run_defs)

lemma tick_grazing: "tick grazing_world = Inr grazing_after"
  by (simp add: tick_def grazing_world_def grazing_after_def world_defs run_defs)

lemma sqrt18_bounds: "4 < sqrt 18" "sqrt 18 < 5"
  by (rule real_less_rsqrt, simp) (rule real_less_lsqrt, simp_all)

lemma add_planet_click: "add_planet initial_world 0 250 (Some (600, 0)) = Inr click_world"
  by (simp add: add_planet_def click_world_def world_defs truediv_def py_sqrt_def hypot_def
        WIDTH_def HEIGHT_def G_def)

lemma add_planet_pair_click:
  "add_planet pair_world 0 250 (Some (600, 0)) = Inr pair_click_world"
  by (simp add: add_planet_def pair_click_world_def pair_world_def world_defs truediv_def
        py_sqrt_def hypot_def WIDTH_def HEIGHT_def G_def)

lemma positive_pair: "positive_world pair_world"
  by (simp add: positive_world_def pair_world_def world_defs)

lemma add_planet_505:
  "add_planet (add_asteroid initial_world 500 0 0 0) 0 250 (Some (1105, 400))
     = Inr (spawn (add_asteroid initial_world 500 0 0 0) planet_505)"
  by (simp add: add_planet_def planet_505_def world_defs truediv_def py_sqrt_def hypot_def
        WIDTH_def HEIGHT_def G_def)

section \<open>Static bodies are left alone\<close>

lemma static_kept_refl: "static_kept s s"
  by (simp add: static_kept_def)

lemma static_kept_trans: "static_kept s t \<Longrightarrow> static_kept t u \<Longrightarrow> static_kept s u"
  by (simp add: static_kept_def)

lemma static_member_remove1:
  "is_static (h b) \<Longrightarrow> \<not> is_static (h a) \<Longrightarrow> b \<in> set xs \<Longrightarrow> b \<in> set (remove1 a xs)"
  by (cases "a = b") auto

lemma merge_static_kept:
  assumes "merge s self other = Inr s'" and "\<not> is_static (heap s self)"
  shows "static_kept s s'"
proof (cases "is_static (heap s other)")
  case True
  with assms show ?thesis by (simp add: merge_def static_kept_refl)
next
  case False
  with assms show ?thesis
    by (auto simp: merge_def static_kept_def Let_def setters bind_res_Inr_iff
        split: if_splits intro: static_member_remove1 [of "heap s"])
qed

lemma scan_step_static_kept:
  assumes "scan_step s self other fx fy = Inr (s', fx', fy')" and "\<not> is_static (heap s self)"
  shows "static_kept s s'"
  using assms
  by (auto simp: scan_step_def Let_def bind_res_Inr_iff static_kept_refl
      split: if_splits dest: merge_static_kept)

lemma scan_static_kept:
  "scan s self i fx fy = Inr (s', fx', fy') \<Longrightarrow> \<not> is_static (heap s self) \<Longrightarrow> static_kept s s'"
proof (induction s self i fx fy rule: scan.induct)
  case (1 s self i fx fy)
  show ?case
  proof (cases "i < length (bodies s)")
    case False
    with "1.prems" show ?thesis by (simp add: scan.simps static_kept_refl)
  next
    case True
    with "1.prems"(1) obtain s1 fx1 fy1 where
      step: "scan_step s self (bodies s ! i) fx fy = Inr (s1, fx1, fy1)"
      and rest: "scan s1 self (Suc i) fx1 fy1 = Inr (s', fx', fy')"
      by (auto simp: scan.simps [of s self i] split: sum.splits)
    from step "1.prems"(2) have k1: "static_kept s s1"
      by (rule scan_step_static_kept)
    then have "\<not> is_static (heap s1 self)"
      using "1.prems"(2) by (simp add: static_kept_def)
    with "1.IH" [OF True step refl refl rest] have "static_kept s1 s'" .
    with k1 show ?thesis by (rule static_kept_trans)
  qed
qed

lemma update_static_kept: "update s self = Inr s' \<Longrightarrow> static_kept s s'"
proof (cases "is_static (heap s self) \<or> paused s")
  case True
  assume "update s self = Inr s'"
  with True show ?thesis by (auto simp: update_def static_kept_refl)
next
  case False
  assume "update s self = Inr s'"
  with False obtain s1 fx fy where
    sc: "scan s self 0 0 0 = Inr (s1, fx, fy)"
    and fin: "bodies s' = bodies s1" "paused s' = paused s1"
             "\<forall>b. b \<noteq> self \<longrightarrow> heap s' b = heap s1 b"
             "is_static (heap s' self) = is_static (heap s1 self)"
    by (auto simp: update_def bind_res_Inr_iff Let_def setters split: if_splits)
  from sc False have k: "static_kept s s1" by (auto dest: scan_static_kept)
  have "static_kept s1 s'"
    using fin k False by (auto simp: static_kept_def)
  with k show ?thesis by (rule static_kept_trans)
qed

lemma tick_loop_static_kept: "tick_loop s bs = Inr s' \<Longrightarrow> static_kept s s'"
proof (induction bs arbitrary: s)
  case Nil
  then show ?case by (simp add: static_kept_refl)
next
  case (Cons b bs)
  then show ?case
    by (auto split: sum.splits dest: update_static_kept intro: static_kept_trans)
qed

lemma ticks_static_kept: "ticks n s = Inr s' \<Longrightarrow> static_kept s s'"
proof (induction n arbitrary: s)
  case 0
  then show ?case by (simp add: static_kept_refl)
next
  case (Suc n)
  then show ?case
    by (auto simp: tick_def split: sum.splits dest: tick_loop_static_kept
        intro: static_kept_trans)
qed

section \<open>Positive masses and radii: no fault, and they stay positive\<close>

lemma merge_positive:
  assumes "positive_world s"
  shows "\<exists>s'. merge s self other = Inr s' \<and> positive_world s'"
proof -
  from assms have m: "0 < mass (heap s b)" and r: "0 < radius (heap s b)" for b
    by (simp_all add: positive_world_def)
  have mne: "mass (heap s b) \<noteq> 0" and rne: "radius (heap s b) \<noteq> 0" for b
    using m [of b] r [of b] by simp_all
  have den: "mass (heap s a) + (mass (heap s b) + mass (heap s a)) \<noteq> 0"
       "mass (heap s a) + mass (heap s b) + mass (heap s b) \<noteq> 0"
       "2 * mass (heap s a) + mass (heap s b) \<noteq> 0" for a b
    using m [of a] m [of b] by simp_all
  have sq: "0 < (radius (heap s a))\<^sup>2 + (radius (heap s b))\<^sup>2" for a b
    using r [of a] by (simp add: sum_power2_gt_zero_iff)
  have nsq: "\<not> (radius (heap s a))\<^sup>2 + (radius (heap s b))\<^sup>2 < 0" for a b
    using sq [of a b] by simp
  show ?thesis
    by (auto simp: merge_def Let_def setters truediv_def py_sqrt_def positive_world_def
          m r mne rne den sq nsq add_pos_pos)
qed

lemma scan_step_positive:
  assumes "positive_world s"
  shows "\<exists>s' fx' fy'. scan_step s self other fx fy = Inr (s', fx', fy') \<and> positive_world s'"
  using assms merge_positive [OF assms, of self other]
  by (auto simp: scan_step_def Let_def truediv_def)

lemma scan_positive:
  "positive_world s \<Longrightarrow>
     \<exists>s' fx' fy'. scan s self i fx fy = Inr (s', fx', fy') \<and> positive_world s'"
proof (induction s self i fx fy rule: scan.induct)
  case (1 s self i fx fy)
  show ?case
  proof (cases "i < length (bodies s)")
    case False
    with "1.prems" show ?thesis by (simp add: scan.simps)
  next
    case True
    from scan_step_positive [OF "1.prems", of self "bodies s ! i" fx fy]
    obtain s1 fx1 fy1 where
      step: "scan_step s self (bodies s ! i) fx fy = Inr (s1, fx1, fy1)"
      and pos: "positive_world s1"
      by blast
    from "1.IH" [OF True step refl refl pos] True step show ?thesis
      by (simp add: scan.simps [of s self i])
  qed
qed

lemma update_positive:
  assumes "positive_world s"
  shows "\<exists>s'. update s self = Inr s' \<and> positive_world s'"
proof (cases "is_static (heap s self) \<or> paused s")
  case True
  with assms show ?thesis by (auto simp: update_def)
next
  case False
  from scan_positive [OF assms, of self 0 0 0]
  obtain s1 fx fy where sc: "scan s self 0 0 0 = Inr (s1, fx, fy)" and pos: "positive_world s1"
    by blast
  from pos have "mass (heap s1 self) \<noteq> 0"
    using positive_world_def [of s1] by (metis less_irrefl)
  with False sc pos show ?thesis
    by (auto simp: update_def Let_def setters truediv_def positive_world_def)
qed

lemma tick_loop_positive:
  "positive_world s \<Longrightarrow> \<exists>s'. tick_loop s bs = Inr s' \<and> positive_world s'"
proof (induction bs arbitrary: s)
  case Nil
  then show ?case by simp
next
  case (Cons b bs)
  from update_positive [OF Cons.prems, of b]
  obtain s1 where "update s b = Inr s1" and "positive_world s1" by blast
  with Cons.IH [of s1] show ?case by simp
qed

lemma ticks_positive:
  "positive_world s \<Longrightarrow> \<exists>s'. ticks n s = Inr s' \<and> positive_world s'"
proof (induction n arbitrary: s)
  case 0
  then show ?case by simp
next
  case (Suc n)
  from tick_loop_positive [OF Suc.prems, of "bodies s"]
  obtain s1 where "tick s = Inr s1" and "positive_world s1" by (auto simp: tick_def)
  with Suc.IH [of s1] show ?case by simp
qed

lemma positive_initial: "positive_world initial_world"
  by (simp add: positive_world_def world_defs)

lemma positive_spawn:
  "positive_world s \<Longrightarrow> 0 < mass b \<Longrightarrow> 0 < radius b \<Longrightarrow> positive_world (spawn s b)"
  by (simp add: positive_world_def spawn_def)

lemma positive_add_asteroid:
  "positive_world s \<Longrightarrow> positive_world (add_asteroid s px py pvx pvy)"
  by (simp add: add_asteroid_def positive_spawn Body_init_def)

lemma positive_add_planet:
  "positive_world s \<Longrightarrow> add_planet s angle rdist pos = Inr s' \<Longrightarrow> positive_world s'"
  by (auto simp: add_planet_def bind_res_Inr_iff Let_def Body_init_def
        split: option.splits prod.splits intro!: positive_spawn)

section \<open>The claims\<close>

text \<open>
  C1. The claim: the absorbing body's new velocity is the average of the two velocities
  weighted by the masses before the merge, so that a body of mass 3 and velocity (2, 0)
  merged with a body of mass 1 and velocity (0, 4) moves at (1.5, 1.0). The code adds
  the absorbed mass to the absorbing body first and then computes the velocity with
  that increased mass: on the example, whichever of the two is \<open>self\<close>, the absorbing
  body ends with mass 4 and velocity (8/5, 4/5).
\<close>

theorem merge_velocity_postmass:
  "map_sum id (\<lambda>s. (bodies s, mass (heap s 1), vx (heap s 1), vy (heap s 1)))
       (merge duel_world 1 2) = Inr ([0, 1], 4, 8 / 5, 4 / 5)
   \<and> map_sum id (\<lambda>s. (bodies s, mass (heap s 1), vx (heap s 1), vy (heap s 1)))
       (merge duel_world 2 1) = Inr ([0, 1], 4, 8 / 5, 4 / 5)"
  by (simp add: duel_world_def world_defs run_defs)

text \<open>
  C2. The claim: the masses of the bodies in \<open>bodies\<close> add up to the same total
  after any number of ticks. In \<open>pair_world\<close> (sun, and two overlapping asteroids of
  mass 1) the total is 10002 before the tick and 10003 after it. The first asteroid
  absorbs the second during its own update; the main loop then still updates the
  second, which it took from the copy of the list, and that update merges it into the
  first once more.
\<close>

theorem tick_duplicates_mass:
  "total_mass pair_world = 10002 \<and> map_sum id total_mass (tick pair_world) = Inr 10003"
  using sqrt18_bounds
  by (simp add: tick_def total_mass_def pair_world_def world_defs run_defs)

text \<open>
  C3. Over any number of ticks that run without a fault, a static body that is in
  \<open>bodies\<close> is untouched: all its fields are as before, its mass in particular, it is
  still static, and it is still in \<open>bodies\<close>. A body that is absorbed is taken out of
  the list, so a static body is never the absorbed side.
\<close>

theorem static_immunity:
  assumes "ticks n s = Inr s'" and "is_static (heap s b)" and "b \<in> set (bodies s)"
  shows "heap s' b = heap s b \<and> mass (heap s' b) = mass (heap s b)
         \<and> is_static (heap s' b) \<and> b \<in> set (bodies s')"
  using ticks_static_kept [OF assms(1)] assms(2,3) by (simp add: static_kept_def)

theorem static_immunity_witness:
  "ticks 1 grazing_world = Inr grazing_after \<and> is_static (heap grazing_world sun)
   \<and> sun \<in> set (bodies grazing_world)
   \<and> mass (heap grazing_after sun) = 10000 \<and> is_static (heap grazing_after sun)
   \<and> sun \<in> set (bodies grazing_after)"
  using static_immunity [of 1 grazing_world grazing_after sun] tick_grazing
  by (simp add: grazing_world_def world_defs)

text \<open>
  C4. The claim: a body removed by a merge is not updated again in the same tick. In
  \<open>pair_world\<close> the tick updates the sun (nothing happens), then asteroid 1, which
  absorbs asteroid 2: after that update asteroid 2 is out of \<open>bodies\<close>, asteroid 1
  has mass 2 and asteroid 2 has never been integrated (its trail is empty). The tick
  then updates asteroid 2 all the same: at the end of the tick its trail has one entry
  and asteroid 1 has mass 3.
\<close>

theorem removed_body_updated_again:
  "update pair_world 0 = Inr pair_world
   \<and> map_sum id (\<lambda>s. (bodies s, mass (heap s 1), trail (heap s 2))) (update pair_world 1)
       = Inr ([0, 1], 2, [])
   \<and> map_sum id (\<lambda>s. (bodies s, mass (heap s 1), length (trail (heap s 2))))
       (tick pair_world) = Inr ([0, 1], 3, 1)"
  using sqrt18_bounds
  by (simp add: tick_def pair_world_def world_defs run_defs)

text \<open>
  C5, as stated, fails. In \<open>grazing_world\<close> a non-static asteroid of mass 1 overlaps
  the static sun of mass 10000. \<open>merge\<close> returns the world unchanged, and after the
  whole tick both bodies are still in \<open>bodies\<close>, the sun is exactly as it was and the
  asteroid still has mass 1: nothing was absorbed and nothing was removed.
\<close>

theorem static_absorbs_counterexample:
  "\<not> is_static (heap grazing_world 1) \<and> is_static (heap grazing_world sun)
   \<and> mass (heap grazing_world 1) < mass (heap grazing_world sun)
   \<and> hypot (x (heap grazing_world sun) - x (heap grazing_world 1))
            (y (heap grazing_world sun) - y (heap grazing_world 1))
        < radius (heap grazing_world 1) + radius (heap grazing_world sun)
   \<and> merge grazing_world 1 sun = Inr grazing_world
   \<and> tick grazing_world = Inr grazing_after
   \<and> bodies grazing_after = [sun, 1]
   \<and> heap grazing_after sun = heap grazing_world sun
   \<and> mass (heap grazing_after 1) = 1"
  using tick_grazing
  by (simp add: grazing_world_def grazing_after_def world_defs merge_def hypot_axis)

text \<open>
  C5, amended. A collision with a static body is never carried out, whatever the
  masses: \<open>merge\<close> with a static \<open>other\<close> returns at its first statement and leaves
  the world as it was, and the static body's own \<open>update\<close> returns at its guard, so
  it never starts a merge either.
\<close>

theorem static_collision_skipped:
  assumes "is_static (heap s other)"
  shows "merge s self other = Inr s \<and> update s other = Inr s"
  using assms by (simp add: merge_def update_def)

theorem static_collision_skipped_witness:
  "is_static (heap grazing_world sun) \<and> merge grazing_world 1 sun = Inr grazing_world
   \<and> update grazing_world sun = Inr grazing_world"
  using static_collision_skipped [of grazing_world sun 1]
  by (simp add: grazing_world_def world_defs)

text \<open>
  C6. Whenever \<open>merge\<close> is carried out (the other body is not static and no fault is
  raised), the radius of the absorbing body afterwards is the square root of the sum of
  the squares of the two radii before, and is at least each of them.
\<close>

theorem merge_radius_law:
  assumes "\<not> is_static (heap s other)" and "merge s self other = Inr s'"
  shows "radius (heap s' (winner s self other)) =
           sqrt ((radius (heap s (winner s self other)))\<^sup>2
                 + (radius (heap s (loser s self other)))\<^sup>2)
         \<and> radius (heap s (winner s self other)) \<le> radius (heap s' (winner s self other))
         \<and> radius (heap s (loser s self other)) \<le> radius (heap s' (winner s self other))"
  using assms
  by (auto simp: merge_def winner_def loser_def Let_def setters bind_res_Inr_iff
        truediv_def py_sqrt_def le_sqrt_double split: if_splits)

theorem merge_radius_law_witness:
  "\<not> is_static (heap pair_world 2) \<and> merge pair_world 1 2 = Inr pair_merged
   \<and> radius (heap pair_merged 1) = sqrt (3\<^sup>2 + 3\<^sup>2)
   \<and> 3 \<le> radius (heap pair_merged 1)"
  using merge_radius_law [of pair_world 2 1 pair_merged] merge_pair
  by (simp add: winner_def loser_def pair_world_def world_defs)

text \<open>
  C7. The claim: once the subject of a scan has been absorbed, its scan stops and it is
  not integrated. In \<open>swallow_world\<close> asteroid 1 meets planet 2 at the third position
  of its scan and is absorbed by it (the planet's mass becomes 6 and the asteroid leaves
  \<open>bodies\<close>). The scan goes on: the list is one shorter, so the iterator passes over
  asteroid 3 and reaches asteroid 4, whose pull \<open>G / 160000\<close> is added to the pull of
  the sun, \<open>- G / 25\<close>, collected before the merge. The update then integrates the
  absorbed asteroid with that sum: its velocity and position change and its trail gets
  an entry.
\<close>

theorem absorbed_body_keeps_scanning:
  "map_sum id (\<lambda>(s, fx, fy). (bodies s, mass (heap s 2), fx, fy)) (scan swallow_world 1 0 0 0)
     = Inr ([0, 2, 3, 4], 6, G / 160000 - G / 25, 0)
   \<and> map_sum id (\<lambda>s. (bodies s, vx (heap s 1), x (heap s 1), trail (heap s 1)))
        (update swallow_world 1)
     = Inr ([0, 2, 3, 4], G / 160000 - G / 25, 500 + (G / 160000 - G / 25),
            [(500 + (G / 160000 - G / 25), 0)])"
  by (simp add: swallow_world_def planet_505_def world_defs run_defs)

text \<open>
  C8. In one pass of the scan, a pair whose centres coincide is skipped: the world and
  the two force sums come back unchanged and no fault is raised. And the pass can
  change the world, which only \<open>merge\<close> does, only when the distance is strictly
  between 0 and the sum of the radii; outside that range it returns the world as it
  was, without a fault.
\<close>

theorem coincident_pair_skipped:
  "(hypot (x (heap s other) - x (heap s self)) (y (heap s other) - y (heap s self)) = 0
      \<longrightarrow> scan_step s self other fx fy = Inr (s, fx, fy))
   \<and> (\<not> (0 < hypot (x (heap s other) - x (heap s self)) (y (heap s other) - y (heap s self))
          \<and> hypot (x (heap s other) - x (heap s self)) (y (heap s other) - y (heap s self))
               < radius (heap s self) + radius (heap s other))
      \<longrightarrow> map_sum id fst (scan_step s self other fx fy) = Inr s)"
  using hypot_nonneg [of "x (heap s other) - x (heap s self)" "y (heap s other) - y (heap s self)"]
  by (auto simp: scan_step_def Let_def truediv_def)

theorem coincident_pair_skipped_witness:
  "hypot (x (heap twin_world 2) - x (heap twin_world 1))
         (y (heap twin_world 2) - y (heap twin_world 1)) = 0
   \<and> scan_step twin_world 1 2 3 4 = Inr (twin_world, 3, 4)
   \<and> map_sum id fst (scan_step twin_world 1 2 3 4) = Inr twin_world"
  using coincident_pair_skipped [of twin_world 2 1 3 4]
  by (simp add: twin_world_def world_defs hypot_def)

text \<open>
  C9, as stated, fails. \<open>Body.__init__\<close> checks nothing: a body of mass 0 and radius
  -1 is constructed, and a body of mass 0 that is spawned faults with
  \<open>ZeroDivisionError\<close> at \<open>fx / self.mass\<close> in its first update.
\<close>

theorem body_init_unchecked_counterexample:
  "mass (Body_init 100 0 (- 1) (0, 0, 0) 0 0 0 False) = 0
   \<and> radius (Body_init 100 0 (- 1) (0, 0, 0) 0 0 0 False) = - 1
   \<and> update (spawn initial_world (Body_init 100 0 3 (0, 0, 0) 0 0 0 False)) 1
       = Inl ZeroDivisionError"
  by (simp add: world_defs run_defs)

text \<open>
  C9, amended. The constructor stores the mass and the radius it is given, whatever
  they are, and raises nothing. Positive masses and radii come from the call sites and
  are kept by the simulation, in exact arithmetic: with the floats read as real numbers
  (no rounding, no underflow, no overflow), the start world has them, both spawners
  keep them, and from a world that has them any number of ticks run without a division
  fault and end in a world that has them. Nothing is said here about float arithmetic
  at magnitudes where a square underflows to zero or overflows.
\<close>

theorem positivity_from_call_sites:
  "mass (Body_init px py r c m pvx pvy st) = m
   \<and> radius (Body_init px py r c m pvx pvy st) = r
   \<and> positive_world initial_world
   \<and> (positive_world s \<longrightarrow>
        positive_world (add_asteroid s ax ay avx avy)
        \<and> (\<forall>s'. add_planet s angle rdist pos = Inr s' \<longrightarrow> positive_world s')
        \<and> (\<exists>s'. ticks n s = Inr s' \<and> positive_world s'))"
  using ticks_positive [of s n]
  by (auto simp: Body_init_def positive_initial positive_add_asteroid
        dest: positive_add_planet)

text \<open>
  The witness is \<open>pair_world\<close>, where the tick does real work: both asteroids are
  pulled by the sun (a division by the squared distance), they merge (divisions by the
  sum of the masses, a square root), and both are integrated (divisions by the mass).
  The tick ends with the absorbing asteroid at mass 3 and radius \<open>sqrt 27\<close>.
\<close>

theorem positivity_from_call_sites_witness:
  "positive_world pair_world
   \<and> positive_world (add_asteroid pair_world 900 0 0 0)
   \<and> add_planet pair_world 0 250 (Some (600, 0)) = Inr pair_click_world
   \<and> positive_world pair_click_world
   \<and> (\<exists>s'. ticks 1 pair_world = Inr s' \<and> positive_world s')
   \<and> map_sum id (\<lambda>s. (bodies s, mass (heap s 1), radius (heap s 1))) (ticks 1 pair_world)
       = Inr ([0, 1], 3, sqrt 27)"
proof -
  have run: "map_sum id (\<lambda>s. (bodies s, mass (heap s 1), radius (heap s 1)))
               (ticks 1 pair_world) = Inr ([0, 1], 3, sqrt 27)"
    using sqrt18_bounds
    by (simp add: tick_def pair_world_def world_defs run_defs split: sum.splits)
  from positivity_from_call_sites [of 0 0 6 "(0, 0, 0)" 5 0 0 False pair_world 900 0 0 0 0 250
      "Some (600, 0)" 1] positive_pair add_planet_pair_click run
  show ?thesis by simp
qed

text \<open>
  C10. The claim: a planet added by a click also starts perpendicular to its radius
  vector. \<open>add_planet\<close> replaces the position by the clicked one but still turns the
  velocity by the random angle. A click at pixel (600, 0) with the angle drawn as 0 puts
  the planet at (0, -400), at distance 400 from the sun, with velocity
  (0, sqrt (G * 10000 / 400)): the speed is the claimed one, but the velocity points
  straight at the sun, and its scalar product with the radius vector is not zero.
\<close>

theorem click_spawn_not_perpendicular:
  "add_planet initial_world 0 250 (Some (600, 0)) = Inr click_world
   \<and> x (heap click_world 1) = 0 \<and> y (heap click_world 1) = - 400
   \<and> vx (heap click_world 1) = 0 \<and> vy (heap click_world 1) = sqrt (G * 10000 / 400)
   \<and> radial_dot click_world 1 = - 400 * sqrt (G * 10000 / 400)
   \<and> radial_dot click_world 1 < 0"
  using add_planet_click
  by (simp add: radial_dot_def click_world_def world_defs G_def)

end
